theory Spec2Isabelle
  imports Main
begin

section \<open>Go library functions called by the server\<close>

text \<open>
  A Go string is a sequence of bytes, a \<^typ>\<open>string\<close> here (a \<^typ>\<open>char\<close> is
  one byte). The server calls \<^verbatim>\<open>strings.ToLower\<close> on header keys and
  \<^verbatim>\<open>json.Marshal\<close> on the aggregate; both read their argument as UTF-8. The
  definitions of this section follow the Go 1.22 standard library (the version of
  \<^verbatim>\<open>go.mod\<close>), with runes as natural numbers.
\<close>

definition byte :: "char \<Rightarrow> nat" where
  "byte c = of_char c"

definition RuneError :: nat where
  "RuneError = 0xFFFD"

text \<open>
  \<^verbatim>\<open>utf8.DecodeRuneInString\<close>: the first rune of the string and its width in bytes;
  \<open>(RuneError, 1)\<close> for a byte that starts no well-formed encoding, \<open>(RuneError, 0)\<close>
  for the empty string. The mask-and-shift arithmetic of the original is written with
  \<open>mod\<close> and multiplication.
\<close>

definition utf8_DecodeRuneInString :: "string \<Rightarrow> nat \<times> nat" where
  "utf8_DecodeRuneInString s =
     (if length s < 1 then (RuneError, 0)
      else let s0 = byte (s ! 0) in
        if s0 < 0x80 then (s0, 1)
        else if s0 < 0xC2 \<or> 0xF4 < s0 then (RuneError, 1)
        else
          let sz = (if s0 < 0xE0 then 2 else if s0 < 0xF0 then 3 else 4 :: nat);
              lo = (if s0 = 0xE0 then 0xA0 else if s0 = 0xF0 then 0x90 else 0x80);
              hi = (if s0 = 0xED then 0x9F else if s0 = 0xF4 then 0x8F else 0xBF)
          in
            if length s < sz then (RuneError, 1)
            else let s1 = byte (s ! 1) in
              if s1 < lo \<or> hi < s1 then (RuneError, 1)
              else if sz \<le> 2 then ((s0 mod 0x20) * 0x40 + s1 mod 0x40, 2)
              else let s2 = byte (s ! 2) in
                if s2 < 0x80 \<or> 0xBF < s2 then (RuneError, 1)
                else if sz \<le> 3 then
                  ((s0 mod 0x10) * 0x1000 + (s1 mod 0x40) * 0x40 + s2 mod 0x40, 3)
                else let s3 = byte (s ! 3) in
                  if s3 < 0x80 \<or> 0xBF < s3 then (RuneError, 1)
                  else ((s0 mod 8) * 0x40000 + (s1 mod 0x40) * 0x1000
                          + (s2 mod 0x40) * 0x40 + s3 mod 0x40, 4))"

text \<open>
  \<^verbatim>\<open>utf8.AppendRune\<close>: the UTF-8 encoding of a rune; surrogates and runes beyond
  U+10FFFF are written as U+FFFD.
\<close>

definition utf8_EncodeRune :: "nat \<Rightarrow> string" where
  "utf8_EncodeRune r =
     (if r \<le> 0x7F then [char_of r]
      else if r \<le> 0x7FF then [char_of (0xC0 + r div 0x40), char_of (0x80 + r mod 0x40)]
      else if 0x10FFFF < r \<or> (0xD800 \<le> r \<and> r \<le> 0xDFFF) then [CHR 0xEF, CHR 0xBF, CHR 0xBD]
      else if r \<le> 0xFFFF then
        [char_of (0xE0 + r div 0x1000), char_of (0x80 + (r div 0x40) mod 0x40),
         char_of (0x80 + r mod 0x40)]
      else
        [char_of (0xF0 + r div 0x40000), char_of (0x80 + (r div 0x1000) mod 0x40),
         char_of (0x80 + (r div 0x40) mod 0x40), char_of (0x80 + r mod 0x40)])"

text \<open>
  \<^verbatim>\<open>unicode.ToLower\<close>. ASCII runes take the fast path of the original. Beyond ASCII
  the original consults the table \<^verbatim>\<open>unicode.CaseRanges\<close>, which is not part of the
  repository. Exactly two of its entries have an ASCII lower case: U+0130 (capital I
  with dot above, delta -199) maps to \<open>i\<close> and U+212A (Kelvin sign, delta -8383) maps to
  \<open>k\<close>. These two entries are kept; every other rune beyond ASCII is left as it is, where
  the table would give another rune beyond ASCII. The server only compares the lower-cased
  key with an ASCII literal, and that comparison is the same under both.
\<close>

definition unicode_ToLower :: "nat \<Rightarrow> nat" where
  "unicode_ToLower r =
     (if r \<le> 0x7F then (if 0x41 \<le> r \<and> r \<le> 0x5A then r + 0x20 else r)
      else if r = 0x130 then 0x69
      else if r = 0x212A then 0x6B
      else r)"

text \<open>
  \<^verbatim>\<open>strings.Map\<close> with a mapping that drops no rune: the runes of the string are
  mapped one by one and written back in UTF-8. A byte that starts no well-formed encoding
  is read as U+FFFD of width one, as the \<^verbatim>\<open>range\<close> loop of the original reads it.
\<close>

fun strings_Map :: "(nat \<Rightarrow> nat) \<Rightarrow> string \<Rightarrow> string" where
  "strings_Map mapping [] = []"
| "strings_Map mapping (c # cs) =
     (let (r, width) = utf8_DecodeRuneInString (c # cs)
      in utf8_EncodeRune (mapping r) @ strings_Map mapping (drop (width - 1) cs))"

text \<open>
  \<^verbatim>\<open>strings.ToLower\<close>: strings of ASCII bytes are lower-cased byte by byte (and
  returned as they are when they hold no upper-case letter); any other string goes through
  \<^verbatim>\<open>strings.Map(unicode.ToLower, s)\<close>.
\<close>

definition strings_ToLower :: "string \<Rightarrow> string" where
  "strings_ToLower s =
     (let isASCII = list_all (\<lambda>c. byte c < 0x80) s;
          hasUpper = list_ex (\<lambda>c. 0x41 \<le> byte c \<and> byte c \<le> 0x5A) s
      in if isASCII then
           (if \<not> hasUpper then s
            else map (\<lambda>c. if 0x41 \<le> byte c \<and> byte c \<le> 0x5A
                           then char_of (byte c + 0x20) else c) s)
         else strings_Map unicode_ToLower s)"

subsection \<open>encoding/json\<close>

text \<open>
  \<^verbatim>\<open>strconv.AppendInt(dst, i, 10)\<close>, the encoder of a Go \<^verbatim>\<open>int\<close>: decimal digits,
  with a minus sign for a negative number.
\<close>

fun formatBits :: "nat \<Rightarrow> string" where
  "formatBits n =
     (if n < 10 then [char_of (0x30 + n)]
      else formatBits (n div 10) @ [char_of (0x30 + n mod 10)])"

definition strconv_FormatInt :: "int \<Rightarrow> string" where
  "strconv_FormatInt i = (if i < 0 then ''-'' @ formatBits (nat (- i)) else formatBits (nat i))"

text \<open>
  The encoder of a Go string (\<^verbatim>\<open>appendString\<close> with \<^verbatim>\<open>escapeHTML\<close> set, as
  \<^verbatim>\<open>json.Marshal\<close> calls it). \<open>htmlSafeSet\<close> holds the ASCII bytes written as they
  are: everything from the space on but the double quote, the backslash and the three
  characters \<open>&\<close>, \<open><\<close>, \<open>>\<close>.
\<close>

definition htmlSafeSet :: "nat \<Rightarrow> bool" where
  "htmlSafeSet b = (0x20 \<le> b \<and> b < 0x80 \<and> b \<noteq> 0x22 \<and> b \<noteq> 0x26 \<and> b \<noteq> 0x3C
                     \<and> b \<noteq> 0x3E \<and> b \<noteq> 0x5C)"

definition hex :: string where
  "hex = ''0123456789abcdef''"

fun appendString_body :: "string \<Rightarrow> string" where
  "appendString_body [] = []"
| "appendString_body (c # cs) =
     (let b = byte c in
      if b < 0x80 then
        (if htmlSafeSet b then [c]
         else if b = 0x5C \<or> b = 0x22 then [CHR 0x5C, c]
         else if b = 0x08 then [CHR 0x5C, CHR ''b'']
         else if b = 0x0C then [CHR 0x5C, CHR ''f'']
         else if b = 0x0A then [CHR 0x5C, CHR ''n'']
         else if b = 0x0D then [CHR 0x5C, CHR ''r'']
         else if b = 0x09 then [CHR 0x5C, CHR ''t'']
         else [CHR 0x5C, CHR ''u'', CHR ''0'', CHR ''0'', hex ! (b div 0x10), hex ! (b mod 0x10)])
        @ appendString_body cs
      else
        (let (r, size) = utf8_DecodeRuneInString (c # cs) in
         if r = RuneError \<and> size = 1 then
           CHR 0x5C # ''ufffd'' @ appendString_body cs
         else if r = 0x2028 \<or> r = 0x2029 then
           CHR 0x5C # ''u202'' @ [hex ! (r mod 0x10)] @ appendString_body (drop (size - 1) cs)
         else take size (c # cs) @ appendString_body (drop (size - 1) cs)))"

definition appendString :: "string \<Rightarrow> string" where
  "appendString src = [CHR 0x22] @ appendString_body src @ [CHR 0x22]"

text \<open>
  What the encoder writes for the types of this program: \<^verbatim>\<open>null\<close> (a nil slice), a
  number, a string, an array (elements in order, separated by commas) and an object (the
  fields of a struct in declaration order, each under the name of its \<^verbatim>\<open>json\<close> tag).
\<close>

datatype json = JNull | JNumber int | JString string | JArray "json list"
  | JObject "(string \<times> json) list"

fun join :: "string list \<Rightarrow> string" where
  "join [] = []"
| "join [x] = x"
| "join (x # y # ys) = x @ '','' @ join (y # ys)"

fun encode :: "json \<Rightarrow> string" where
  "encode JNull = ''null''"
| "encode (JNumber i) = strconv_FormatInt i"
| "encode (JString s) = appendString s"
| "encode (JArray vs) = ''['' @ join (map encode vs) @ '']''"
| "encode (JObject fs) =
     ''{'' @ join (map (\<lambda>(name, v). appendString name @ '':'' @ encode v) fs) @ ''}''"

section \<open>The data model\<close>

text \<open>
  The record types of \<^verbatim>\<open>server.go\<close>. A Go slice that may be nil is a list option
  (\<open>None\<close> is nil): the encoder writes nil as \<^verbatim>\<open>null\<close> and an empty slice as
  \<^verbatim>\<open>[]\<close>. A Go \<^verbatim>\<open>int\<close> is an \<^typ>\<open>int\<close>: the server does no arithmetic
  on the identifiers, it only prints them.
\<close>

record AlbumResponse =
  Id :: int
  UserId :: int
  Title :: string

record PostResponse =
  Id :: int
  UserId :: int
  Title :: string
  Body :: string

record AggregatedData =
  Albums :: "AlbumResponse list option"
  Posts :: "PostResponse list option"

text \<open>
  The messages of the external processing protocol, as far as the server reads or writes
  them. A \<^verbatim>\<open>HeaderValue\<close> has a key and a raw value (the server never reads the
  \<^verbatim>\<open>Value\<close> field). The \<^verbatim>\<open>Headers\<close> field of \<^verbatim>\<open>HttpHeaders\<close> is a
  pointer to a header map and nil when the message carries none. A request is a
  \<^verbatim>\<open>oneof\<close>; the server reads the payload of the request-headers variant only, so the
  other variants carry none here, and \<open>ProcessingRequest_unset\<close> is a request whose
  \<^verbatim>\<open>oneof\<close> is nil (no variant set, or one this version does not know).
\<close>

record HeaderValue =
  Key :: string
  RawValue :: string

record HttpHeaders =
  Headers :: "HeaderValue list option"

datatype ProcessingRequest =
    ProcessingRequest_RequestHeaders HttpHeaders
  | ProcessingRequest_RequestBody
  | ProcessingRequest_RequestTrailers
  | ProcessingRequest_ResponseHeaders
  | ProcessingRequest_ResponseBody
  | ProcessingRequest_ResponseTrailers
  | ProcessingRequest_unset

datatype ResponseStatus = CommonResponse_CONTINUE | CommonResponse_CONTINUE_AND_REPLACE

datatype BodyMutation = BodyMutation_Body string | BodyMutation_ClearBody bool

text \<open>
  A \<^verbatim>\<open>CommonResponse\<close> with the two fields the server sets; a \<^verbatim>\<open>HeadersResponse\<close>
  whose \<^verbatim>\<open>Response\<close> is nil is the empty decision of the response builder, and a
  \<^verbatim>\<open>ProcessingResponse\<close> with no variant set is the empty decision of the stream
  handler.
\<close>

record CommonResponse =
  Status :: ResponseStatus
  BodyMutation :: "BodyMutation option"

record HeadersResponse =
  Response :: "CommonResponse option"

datatype ProcessingResponse =
    ProcessingResponse_unset
  | ProcessingResponse_RequestHeaders HeadersResponse

text \<open>
  The errors \<^verbatim>\<open>Process\<close> can return: \<^verbatim>\<open>ctx.Err()\<close>, the status
  \<^verbatim>\<open>codes.Unknown\<close> it makes of a failed \<^verbatim>\<open>Recv\<close>, and the error of a failed
  \<^verbatim>\<open>Send\<close>.
\<close>

datatype error = ctx_Err | status_Unknown | send_err

text \<open>
  A call either returns or ends the whole process: \<^verbatim>\<open>Log.Fatal\<close> of zap writes the
  entry and calls \<^verbatim>\<open>os.Exit(1)\<close>, and a panic that nothing recovers ends the process
  as well.
\<close>

datatype 'a exec = Returns 'a | ProcessDies

text \<open>
  What a function does to the outside, in the order it does it: a request read from the
  stream, an HTTP GET of a URL, a response sent on the stream (or handed to a
  \<^verbatim>\<open>Send\<close> that failed).
\<close>

datatype io =
    Received ProcessingRequest
  | HttpGet string
  | Sent ProcessingResponse
  | SendFailed ProcessingResponse

text \<open>
  The backend, as one fetch sees it: \<^verbatim>\<open>http.Get\<close> fails, or it returns a response.
  Of a response the model keeps what \<^verbatim>\<open>Decode\<close> leaves in the destination slice
  (nil when it stored nothing), whether \<^verbatim>\<open>Decode\<close> reported an error, and whether
  closing the body reported one.
\<close>

datatype 'a fetched =
    TransportError
  | HttpResponse "'a list option" bool bool

record backend =
  getAlbums :: "string \<Rightarrow> AlbumResponse fetched"
  getPosts :: "string \<Rightarrow> PostResponse fetched"

section \<open>The header inspector and the aggregator\<close>

text \<open>
  \<^verbatim>\<open>getUserIdFromHeaders\<close> (server.go, lines 120-127); \<open>firstUserId\<close> is its
  loop over the entries. Reading \<^verbatim>\<open>in.Headers.Headers\<close> through a nil header map
  is a nil dereference, a panic that nothing recovers.
\<close>

fun firstUserId :: "HeaderValue list \<Rightarrow> string" where
  "firstUserId [] = []"
| "firstUserId (n # ns) =
     (if strings_ToLower (Key n) = ''userid'' then RawValue n else firstUserId ns)"

definition getUserIdFromHeaders :: "HttpHeaders \<Rightarrow> string exec" where
  "getUserIdFromHeaders in' =
     (case Headers in' of
        None \<Rightarrow> ProcessDies
      | Some hs \<Rightarrow> Returns (firstUserId hs))"

text \<open>
  \<^verbatim>\<open>json.Marshal\<close> of an \<^verbatim>\<open>AggregatedData\<close>: the fields under their tags, in
  declaration order. It has no error for these types.
\<close>

definition AlbumResponse_json :: "AlbumResponse \<Rightarrow> json" where
  "AlbumResponse_json a =
     JObject [(''id'', JNumber (AlbumResponse.Id a)), (''userId'', JNumber (AlbumResponse.UserId a)),
              (''title'', JString (AlbumResponse.Title a))]"

definition PostResponse_json :: "PostResponse \<Rightarrow> json" where
  "PostResponse_json p =
     JObject [(''id'', JNumber (PostResponse.Id p)), (''userId'', JNumber (PostResponse.UserId p)),
              (''title'', JString (PostResponse.Title p)), (''body'', JString (Body p))]"

definition slice_json :: "('a \<Rightarrow> json) \<Rightarrow> 'a list option \<Rightarrow> json" where
  "slice_json f s = (case s of None \<Rightarrow> JNull | Some xs \<Rightarrow> JArray (map f xs))"

definition AggregatedData_json :: "AggregatedData \<Rightarrow> json" where
  "AggregatedData_json d =
     JObject [(''albums'', slice_json AlbumResponse_json (Albums d)),
              (''posts'', slice_json PostResponse_json (Posts d))]"

definition json_Marshal :: "AggregatedData \<Rightarrow> error + string" where
  "json_Marshal d = Inr (encode (AggregatedData_json d))"

text \<open>
  \<^verbatim>\<open>fetchAlbums\<close> (lines 156-181): a transport error and a decode error are both
  logged with \<^verbatim>\<open>Log.Fatal\<close>; an error of the deferred \<^verbatim>\<open>Body.Close\<close> panics.
\<close>

definition fetchAlbums :: "backend \<Rightarrow> string \<Rightarrow> AlbumResponse list option exec \<times> io list" where
  "fetchAlbums be id' =
     (let url = ''https://jsonplaceholder.typicode.com/users/'' @ id' @ ''/albums'' in
      (case getAlbums be url of
         TransportError \<Rightarrow> ProcessDies
       | HttpResponse albumResp decodeErr closeErr \<Rightarrow>
           if decodeErr then ProcessDies
           else if closeErr then ProcessDies
           else Returns albumResp,
       [HttpGet url]))"

text \<open>
  \<^verbatim>\<open>fetchPosts\<close> (lines 184-208): a transport error is logged with
  \<^verbatim>\<open>Log.Fatal\<close>, a decode error with \<^verbatim>\<open>Log.Error\<close> only, after which the
  function returns the slice as \<^verbatim>\<open>Decode\<close> left it.
\<close>

definition fetchPosts :: "backend \<Rightarrow> string \<Rightarrow> PostResponse list option exec \<times> io list" where
  "fetchPosts be id' =
     (let url = ''https://jsonplaceholder.typicode.com/users/'' @ id' @ ''/posts'' in
      (case getPosts be url of
         TransportError \<Rightarrow> ProcessDies
       | HttpResponse postResp decodeErr closeErr \<Rightarrow>
           if closeErr then ProcessDies
           else Returns postResp,
       [HttpGet url]))"

text \<open>
  \<^verbatim>\<open>fetchAggregatedResources\<close> (lines 210-245). The two fetches run in goroutines of
  their own and the caller waits for both; the process ends when either of them ends it.
  Both goroutines are started before the result of either is looked at, so both GETs are
  listed on every path, albums first (the order in which the goroutines are started; the
  order in which the requests leave is not determined by the program).
\<close>

definition fetchAggregatedResources :: "backend \<Rightarrow> string \<Rightarrow> string exec \<times> io list" where
  "fetchAggregatedResources be id' =
     (let (albums, io1) = fetchAlbums be id';
          (posts, io2) = fetchPosts be id'
      in (case (albums, posts) of
            (Returns albumsResp, Returns postsResp) \<Rightarrow>
              (case json_Marshal \<lparr>Albums = albumsResp, Posts = postsResp\<rparr> of
                 Inl err \<Rightarrow> Returns []
               | Inr data \<Rightarrow> Returns data)
          | _ \<Rightarrow> ProcessDies,
          io1 @ io2))"

section \<open>The response builder\<close>

text \<open>\<^verbatim>\<open>aggregateServices\<close> (lines 129-153); its error result is nil on every path.\<close>

definition aggregateServices ::
    "backend \<Rightarrow> HttpHeaders \<Rightarrow> (HeadersResponse \<times> error option) exec \<times> io list" where
  "aggregateServices be in' =
     (case getUserIdFromHeaders in' of
        ProcessDies \<Rightarrow> (ProcessDies, [])
      | Returns userIdString \<Rightarrow>
          if userIdString = [] then (Returns (\<lparr>Response = None\<rparr>, None), [])
          else
            (case fetchAggregatedResources be userIdString of
               (ProcessDies, ios) \<Rightarrow> (ProcessDies, ios)
             | (Returns body, ios) \<Rightarrow>
                 (Returns
                    (\<lparr>Response = Some \<lparr>Status = CommonResponse_CONTINUE_AND_REPLACE,
                                        BodyMutation = Some (BodyMutation_Body body)\<rparr>\<rparr>,
                     None),
                  ios)))"

section \<open>The stream handler\<close>

text \<open>
  One turn of the loop of \<^verbatim>\<open>Process\<close> meets the outside four times: the
  \<^verbatim>\<open>select\<close> on \<^verbatim>\<open>ctx.Done()\<close>, \<^verbatim>\<open>srv.Recv()\<close>, the backend (for a
  request-headers event that names a user) and \<^verbatim>\<open>srv.Send\<close>. A \<open>turn\<close> holds what
  the outside answers: whether the context is done when the \<^verbatim>\<open>select\<close> looks, what
  \<^verbatim>\<open>Recv\<close> returns, the backend of this turn, and whether \<^verbatim>\<open>Send\<close> fails.
\<close>

datatype received = Recv_request ProcessingRequest | Recv_EOF | Recv_error

record turn =
  ctxDone :: bool
  recv :: received
  http :: backend
  sendFails :: bool

text \<open>
  How a run of the handler stands after the turns it was given: it returned (with nil or
  an error), the process ended under it, or it is in the loop still, waiting in
  \<^verbatim>\<open>Recv\<close> for the next event.
\<close>

datatype outcome = Returned "error option" | Died | Waiting

text \<open>
  The \<^verbatim>\<open>switch\<close> on the request type (lines 74-105): the response to send, or the
  error of the response builder with which \<^verbatim>\<open>Process\<close> returns.
\<close>

fun buildResponse ::
    "backend \<Rightarrow> ProcessingRequest \<Rightarrow> (error + ProcessingResponse) exec \<times> io list" where
  "buildResponse be (ProcessingRequest_RequestHeaders h) =
     (case aggregateServices be h of
        (ProcessDies, ios) \<Rightarrow> (ProcessDies, ios)
      | (Returns (headersResp, Some err), ios) \<Rightarrow> (Returns (Inl err), ios)
      | (Returns (headersResp, None), ios) \<Rightarrow>
          (Returns (Inr (ProcessingResponse_RequestHeaders headersResp)), ios))"
| "buildResponse be req = (Returns (Inr ProcessingResponse_unset), [])"

text \<open>
  \<^verbatim>\<open>Process\<close> (lines 54-117): the outcome and everything done on the way, for the
  turns given.
\<close>

fun Process :: "turn list \<Rightarrow> outcome \<times> io list" where
  "Process [] = (Waiting, [])"
| "Process (t # ts) =
     (if ctxDone t then (Returned (Some ctx_Err), [])
      else
        (case recv t of
           Recv_EOF \<Rightarrow> (Returned None, [])
         | Recv_error \<Rightarrow> (Returned (Some status_Unknown), [])
         | Recv_request req \<Rightarrow>
             (case buildResponse (http t) req of
                (ProcessDies, ios) \<Rightarrow> (Died, Received req # ios)
              | (Returns (Inl err), ios) \<Rightarrow> (Returned (Some err), Received req # ios)
              | (Returns (Inr resp), ios) \<Rightarrow>
                  if sendFails t then
                    (Returned (Some send_err), Received req # ios @ [SendFailed resp])
                  else
                    (let (out, rest) = Process ts
                     in (out, Received req # ios @ [Sent resp] @ rest)))))"

section \<open>Notions of the specification\<close>

text \<open>
  The specification speaks of keys that are equal ignoring ASCII case, and of an
  extraction that returns an optional string. Both are written here after its words, to
  be compared with \<open>getUserIdFromHeaders\<close>.
\<close>

definition asciiLower :: "char \<Rightarrow> char" where
  "asciiLower c = (if 0x41 \<le> byte c \<and> byte c \<le> 0x5A then char_of (byte c + 0x20) else c)"

definition equalIgnoringASCIICase :: "string \<Rightarrow> string \<Rightarrow> bool" where
  "equalIgnoringASCIICase a b = (map asciiLower a = map asciiLower b)"

definition extractIdentifier :: "HeaderValue list \<Rightarrow> string option" where
  "extractIdentifier hs =
     map_option RawValue (find (\<lambda>n. equalIgnoringASCIICase (Key n) ''userid'') hs)"

definition isASCII :: "string \<Rightarrow> bool" where
  "isASCII s = list_all (\<lambda>c. byte c < 0x80) s"

text \<open>
  The entry identifier extraction selects: the first one whose key the server takes for
  the identifier key.
\<close>

definition identifierHeader :: "HeaderValue list \<Rightarrow> HeaderValue option" where
  "identifierHeader hs = find (\<lambda>n. strings_ToLower (Key n) = ''userid'') hs"

text \<open>The requests read and the decisions sent, in order, among the things done.\<close>

fun requests :: "io list \<Rightarrow> ProcessingRequest list" where
  "requests [] = []"
| "requests (Received r # es) = r # requests es"
| "requests (e # es) = requests es"

fun decisions :: "io list \<Rightarrow> ProcessingResponse list" where
  "decisions [] = []"
| "decisions (Sent d # es) = d # decisions es"
| "decisions (e # es) = decisions es"

fun onStream :: "io \<Rightarrow> bool" where
  "onStream (HttpGet url) = False"
| "onStream e = True"

text \<open>
  When the context is cancelled, told by the turns of the loop: never; before the
  \<^verbatim>\<open>select\<close> of turn \<open>k\<close> looks; or in turn \<open>k\<close> after \<^verbatim>\<open>Recv\<close> has returned,
  while the response is built and before \<^verbatim>\<open>Send\<close> is called. A context that is
  done stays done, so the \<^verbatim>\<open>select\<close> of turn \<open>j\<close> finds it done from turn \<open>k\<close> on in
  the second case and from turn \<open>k + 1\<close> on in the third. \<open>withCancellation\<close> gives the
  turns their answer to the \<^verbatim>\<open>select\<close> accordingly, and \<open>decisionsAfterCancellation\<close>
  are the decisions a run sends after the context was cancelled: those of turn \<open>k\<close> and
  of the later turns.
\<close>

datatype cancellation = Never | BeforeSelect nat | AfterRecv nat

fun selectSees :: "cancellation \<Rightarrow> nat \<Rightarrow> bool" where
  "selectSees Never j = False"
| "selectSees (BeforeSelect k) j = (k \<le> j)"
| "selectSees (AfterRecv k) j = (k < j)"

fun cancellationFrom :: "cancellation \<Rightarrow> nat \<Rightarrow> turn list \<Rightarrow> turn list" where
  "cancellationFrom c j [] = []"
| "cancellationFrom c j (t # ts) = t\<lparr>ctxDone := selectSees c j\<rparr> # cancellationFrom c (Suc j) ts"

definition withCancellation :: "cancellation \<Rightarrow> turn list \<Rightarrow> turn list" where
  "withCancellation c ts = cancellationFrom c 0 ts"

definition decisionsFromTurn :: "nat \<Rightarrow> turn list \<Rightarrow> ProcessingResponse list" where
  "decisionsFromTurn k ts =
     drop (length (decisions (snd (Process (take k ts))))) (decisions (snd (Process ts)))"

fun decisionsAfterCancellation :: "cancellation \<Rightarrow> turn list \<Rightarrow> ProcessingResponse list" where
  "decisionsAfterCancellation Never ts = []"
| "decisionsAfterCancellation (BeforeSelect k) ts =
     decisionsFromTurn k (withCancellation (BeforeSelect k) ts)"
| "decisionsAfterCancellation (AfterRecv k) ts =
     decisionsFromTurn k (withCancellation (AfterRecv k) ts)"

section \<open>Example inputs\<close>

text \<open>
  Scenario A of the specification: the header set \<open>[("userid", "42")]\<close>, one album and
  one post, and the decision and the two GETs it leads to. Further a backend that cannot
  be reached, a header set with the identifier key in three spellings, and turns of the
  stream handler.
\<close>

definition scenarioA_headers :: HttpHeaders where
  "scenarioA_headers = \<lparr>Headers = Some [\<lparr>Key = ''userid'', RawValue = ''42''\<rparr>]\<rparr>"

definition scenarioA_albums :: "AlbumResponse list" where
  "scenarioA_albums = [\<lparr>AlbumResponse.Id = 1, UserId = 42, Title = ''x''\<rparr>]"

definition scenarioA_posts :: "PostResponse list" where
  "scenarioA_posts = [\<lparr>PostResponse.Id = 9, UserId = 42, Title = ''y'', Body = ''z''\<rparr>]"

definition scenarioA_backend :: backend where
  "scenarioA_backend =
     \<lparr>getAlbums = (\<lambda>url. HttpResponse (Some scenarioA_albums) False False),
      getPosts = (\<lambda>url. HttpResponse (Some scenarioA_posts) False False)\<rparr>"

definition scenarioA_decision :: HeadersResponse where
  \<open>scenarioA_decision =
     \<lparr>Response = Some \<lparr>Status = CommonResponse_CONTINUE_AND_REPLACE,
        BodyMutation = Some (BodyMutation_Body
          ''{"albums":[{"id":1,"userId":42,"title":"x"}],"posts":[{"id":9,"userId":42,"title":"y","body":"z"}]}'')\<rparr>\<rparr>\<close>

definition scenarioA_fetches :: "io list" where
  "scenarioA_fetches =
     [HttpGet ''https://jsonplaceholder.typicode.com/users/42/albums'',
      HttpGet ''https://jsonplaceholder.typicode.com/users/42/posts'']"

definition unreachableBackend :: backend where
  "unreachableBackend = \<lparr>getAlbums = (\<lambda>url. TransportError), getPosts = (\<lambda>url. TransportError)\<rparr>"

definition mixedCaseHeaders :: "HeaderValue list" where
  "mixedCaseHeaders =
     [\<lparr>Key = ''host'', RawValue = ''example.org''\<rparr>, \<lparr>Key = ''UserId'', RawValue = ''1''\<rparr>,
      \<lparr>Key = ''USERID'', RawValue = ''2''\<rparr>, \<lparr>Key = ''userid'', RawValue = ''3''\<rparr>]"

definition twoTurns :: "turn list" where
  "twoTurns =
     [\<lparr>ctxDone = False, recv = Recv_request (ProcessingRequest_RequestHeaders scenarioA_headers),
       http = scenarioA_backend, sendFails = False\<rparr>,
      \<lparr>ctxDone = False, recv = Recv_request ProcessingRequest_RequestBody,
       http = unreachableBackend, sendFails = False\<rparr>]"


section \<open>The header inspector\<close>

lemma firstUserId_find:
  "firstUserId hs = (case identifierHeader hs of None \<Rightarrow> [] | Some n \<Rightarrow> RawValue n)"
  by (induction hs) (simp_all add: identifierHeader_def)


lemma map_asciiLower_no_upper:
  "\<not> list_ex (\<lambda>c. 0x41 \<le> byte c \<and> byte c \<le> 0x5A) s \<Longrightarrow> map asciiLower s = s"
  by (induction s) (auto simp: asciiLower_def)

lemma strings_ToLower_ASCII:
  assumes "isASCII s"
  shows "strings_ToLower s = map asciiLower s"
proof (cases "list_ex (\<lambda>c. 0x41 \<le> byte c \<and> byte c \<le> 0x5A) s")
  case True
  with assms show ?thesis
    by (simp add: strings_ToLower_def isASCII_def asciiLower_def)
next
  case False
  with assms map_asciiLower_no_upper [OF False] show ?thesis
    by (simp add: strings_ToLower_def isASCII_def)
qed

lemma userid_lower: "map asciiLower ''userid'' = ''userid''"
  by code_simp

lemma match_ASCII:
  "isASCII k \<Longrightarrow> (strings_ToLower k = ''userid'') = equalIgnoringASCIICase k ''userid''"
  by (simp only: strings_ToLower_ASCII equalIgnoringASCIICase_def userid_lower)

lemma find_ASCII:
  "list_all (\<lambda>n. isASCII (Key n)) hs \<Longrightarrow>
   identifierHeader hs = find (\<lambda>n. equalIgnoringASCIICase (Key n) ''userid'') hs"
  by (induction hs) (simp_all add: match_ASCII identifierHeader_def)

text \<open>
  C2, as written: extraction returns the raw value of the first entry whose key equals
  the identifier key ignoring ASCII case, and is absent otherwise. This fails for a key
  that is not ASCII: \<^verbatim>\<open>strings.ToLower\<close> folds by Unicode, and U+0130 (bytes C4 B0) is
  lower-cased to \<open>i\<close>, so the key \<open>user\<close>, U+0130, \<open>d\<close> is taken for the identifier key
  although it does not equal it ignoring ASCII case.
\<close>

theorem C2_unicode_key_counterexample:
  "getUserIdFromHeaders
     \<lparr>Headers = Some [\<lparr>Key = ''user'' @ [CHR 0xC4, CHR 0xB0] @ ''d'', RawValue = ''7''\<rparr>]\<rparr>
     = Returns ''7''
   \<and> extractIdentifier [\<lparr>Key = ''user'' @ [CHR 0xC4, CHR 0xB0] @ ''d'', RawValue = ''7''\<rparr>] = None"
  by code_simp

text \<open>
  C2, amended: for every header set, extraction returns the raw value of the first entry
  (in sequence order) whose key, lower-cased by \<^verbatim>\<open>strings.ToLower\<close>, is
  \<open>userid\<close>, and the empty string when there is none; and for every header set whose keys
  are ASCII that entry is the first one whose key equals \<open>userid\<close> ignoring ASCII case,
  so that the result is the value the specification's \<open>extractIdentifier\<close> gives, with the
  empty string for absence.
\<close>

theorem C2_extraction_first_match:
  "getUserIdFromHeaders \<lparr>Headers = Some hs\<rparr>
     = Returns (case find (\<lambda>n. strings_ToLower (Key n) = ''userid'') hs of
                  None \<Rightarrow> [] | Some n \<Rightarrow> RawValue n)
   \<and> (list_all (\<lambda>n. isASCII (Key n)) hs \<longrightarrow>
        getUserIdFromHeaders \<lparr>Headers = Some hs\<rparr>
          = Returns (case extractIdentifier hs of None \<Rightarrow> [] | Some v \<Rightarrow> v))"
proof (intro conjI impI)
  show "getUserIdFromHeaders \<lparr>Headers = Some hs\<rparr>
     = Returns (case find (\<lambda>n. strings_ToLower (Key n) = ''userid'') hs of
                  None \<Rightarrow> [] | Some n \<Rightarrow> RawValue n)"
    by (simp add: getUserIdFromHeaders_def firstUserId_find identifierHeader_def)
  assume "list_all (\<lambda>n. isASCII (Key n)) hs"
  from find_ASCII [OF this]
  show "getUserIdFromHeaders \<lparr>Headers = Some hs\<rparr>
          = Returns (case extractIdentifier hs of None \<Rightarrow> [] | Some v \<Rightarrow> v)"
    by (simp add: getUserIdFromHeaders_def firstUserId_find extractIdentifier_def
        split: option.split)
qed

text \<open>
  The keys \<open>UserId\<close>, \<open>USERID\<close> and \<open>userid\<close> all match, and of several identifier
  headers the first one wins.
\<close>

theorem C2_extraction_first_match_witness:
  "list_all (\<lambda>n. isASCII (Key n)) mixedCaseHeaders
   \<and> getUserIdFromHeaders \<lparr>Headers = Some mixedCaseHeaders\<rparr> = Returns ''1''
   \<and> extractIdentifier mixedCaseHeaders = Some ''1''
   \<and> getUserIdFromHeaders \<lparr>Headers = Some (drop 2 mixedCaseHeaders)\<rparr> = Returns ''2''
   \<and> getUserIdFromHeaders \<lparr>Headers = Some (drop 3 mixedCaseHeaders)\<rparr> = Returns ''3''
   \<and> getUserIdFromHeaders \<lparr>Headers = Some (take 1 mixedCaseHeaders)\<rparr> = Returns []"
proof -
  have a: "list_all (\<lambda>n. isASCII (Key n)) mixedCaseHeaders"
    by code_simp
  have e: "extractIdentifier mixedCaseHeaders = Some ''1''"
    by code_simp
  from C2_extraction_first_match [of mixedCaseHeaders, THEN conjunct2, rule_format, OF a]
  have "getUserIdFromHeaders \<lparr>Headers = Some mixedCaseHeaders\<rparr> = Returns ''1''"
    by (simp only: e option.case)
  moreover have "getUserIdFromHeaders \<lparr>Headers = Some (drop 2 mixedCaseHeaders)\<rparr> = Returns ''2''"
    and "getUserIdFromHeaders \<lparr>Headers = Some (drop 3 mixedCaseHeaders)\<rparr> = Returns ''3''"
    and "getUserIdFromHeaders \<lparr>Headers = Some (take 1 mixedCaseHeaders)\<rparr> = Returns []"
    by code_simp+
  ultimately show ?thesis
    using a e by blast
qed

section \<open>The response builder\<close>


text \<open>
  C5, as written: every header set in which no entry's key matches the identifier key
  case-insensitively gets the empty decision, with no fetch. The server does not compare
  ignoring case, it compares the key lower-cased by \<^verbatim>\<open>strings.ToLower\<close>: the key
  \<open>user\<close>, U+0130, \<open>d\<close> does not equal \<open>userid\<close> ignoring case, and extraction after
  the specification finds no identifier, yet the server takes the entry for the identifier
  header, fetches both lists and replaces the body.
\<close>

theorem C5_unicode_key_counterexample:
  "list_all (\<lambda>n. \<not> equalIgnoringASCIICase (Key n) ''userid'')
     [\<lparr>Key = ''user'' @ [CHR 0xC4, CHR 0xB0] @ ''d'', RawValue = ''42''\<rparr>]
   \<and> extractIdentifier [\<lparr>Key = ''user'' @ [CHR 0xC4, CHR 0xB0] @ ''d'', RawValue = ''42''\<rparr>] = None
   \<and> aggregateServices scenarioA_backend
       \<lparr>Headers = Some [\<lparr>Key = ''user'' @ [CHR 0xC4, CHR 0xB0] @ ''d'', RawValue = ''42''\<rparr>]\<rparr>
     = (Returns (scenarioA_decision, None), scenarioA_fetches)
   \<and> scenarioA_decision \<noteq> \<lparr>Response = None\<rparr>"
  by code_simp






lemma fetchAggregatedResources_cases:
  "fst (fetchAggregatedResources be i) = ProcessDies
   \<or> (\<exists>a p. fst (fetchAggregatedResources be i)
          = Returns (case json_Marshal \<lparr>Albums = a, Posts = p\<rparr> of Inl e \<Rightarrow> [] | Inr data \<Rightarrow> data))"
proof -
  obtain a io1 where a: "fetchAlbums be i = (a, io1)"
    by (cases "fetchAlbums be i")
  obtain p io2 where p: "fetchPosts be i = (p, io2)"
    by (cases "fetchPosts be i")
  show ?thesis
  proof (cases a)
    case ProcessDies
    with a p show ?thesis
      by (simp add: fetchAggregatedResources_def)
  next
    case ra: (Returns albumsResp)
    show ?thesis
    proof (cases p)
      case ProcessDies
      with a p ra show ?thesis
        by (simp add: fetchAggregatedResources_def)
    next
      case (Returns postsResp)
      with a p ra
      have "fst (fetchAggregatedResources be i)
          = Returns (case json_Marshal \<lparr>Albums = albumsResp, Posts = postsResp\<rparr> of
                       Inl e \<Rightarrow> [] | Inr data \<Rightarrow> data)"
        by (simp add: fetchAggregatedResources_def split: sum.split)
      then show ?thesis
        by blast
    qed
  qed
qed

text \<open>
  C10: for every header set whose extracted identifier is not empty, a decision that the
  response builder returns carries the status \<open>CONTINUE_AND_REPLACE\<close> and a body mutation
  (the serialized aggregate, or the empty string where \<^verbatim>\<open>json.Marshal\<close> reports an
  error), with a nil error; it is never the empty decision.
\<close>

theorem C10_identifier_always_replaces:
  assumes "getUserIdFromHeaders in' = Returns i" and "i \<noteq> []"
    and "aggregateServices be in' = (Returns (resp, err), ios)"
  shows "err = None
    \<and> (\<exists>a p. Response resp =
          Some \<lparr>Status = CommonResponse_CONTINUE_AND_REPLACE,
                BodyMutation = Some (BodyMutation_Body
                  (case json_Marshal \<lparr>Albums = a, Posts = p\<rparr> of Inl e \<Rightarrow> [] | Inr data \<Rightarrow> data))\<rparr>)
    \<and> resp \<noteq> \<lparr>Response = None\<rparr>"
proof -
  from fetchAggregatedResources_cases [of be i]
  show ?thesis
  proof
    assume "fst (fetchAggregatedResources be i) = ProcessDies"
    with assms show ?thesis
      by (simp add: aggregateServices_def split: prod.splits exec.splits)
  next
    assume "\<exists>a p. fst (fetchAggregatedResources be i)
          = Returns (case json_Marshal \<lparr>Albums = a, Posts = p\<rparr> of Inl e \<Rightarrow> [] | Inr data \<Rightarrow> data)"
    then obtain a p where "fst (fetchAggregatedResources be i)
          = Returns (case json_Marshal \<lparr>Albums = a, Posts = p\<rparr> of Inl e \<Rightarrow> [] | Inr data \<Rightarrow> data)"
      by blast
    with assms have e: "err = None"
      and r: "Response resp =
          Some \<lparr>Status = CommonResponse_CONTINUE_AND_REPLACE,
                BodyMutation = Some (BodyMutation_Body
                  (case json_Marshal \<lparr>Albums = a, Posts = p\<rparr> of Inl e \<Rightarrow> [] | Inr data \<Rightarrow> data))\<rparr>"
      by (auto simp: aggregateServices_def split: prod.splits exec.splits)
    from r have "resp \<noteq> \<lparr>Response = None\<rparr>"
      by auto
    with e r show ?thesis
      by blast
  qed
qed

text \<open>
  In scenario A the builder does return, and the body is the aggregate.
\<close>

theorem C10_identifier_always_replaces_witness:
  "getUserIdFromHeaders scenarioA_headers = Returns ''42'' \<and> ''42'' \<noteq> []
   \<and> aggregateServices scenarioA_backend scenarioA_headers
       = (Returns (scenarioA_decision, None), scenarioA_fetches)
   \<and> (\<exists>a p. Response scenarioA_decision =
          Some \<lparr>Status = CommonResponse_CONTINUE_AND_REPLACE,
                BodyMutation = Some (BodyMutation_Body
                  (case json_Marshal \<lparr>Albums = a, Posts = p\<rparr> of Inl e \<Rightarrow> [] | Inr data \<Rightarrow> data))\<rparr>)
   \<and> scenarioA_decision \<noteq> \<lparr>Response = None\<rparr>"
proof -
  have i: "getUserIdFromHeaders scenarioA_headers = Returns ''42''"
    by code_simp
  have n: "''42'' \<noteq> []"
    by simp
  have r: "aggregateServices scenarioA_backend scenarioA_headers
       = (Returns (scenarioA_decision, None), scenarioA_fetches)"
    by code_simp
  from C10_identifier_always_replaces [OF i n r] i n r show ?thesis
    by blast
qed

section \<open>The aggregate\<close>







text \<open>
  What the aggregator does with the two replies, case by case: it returns the encoded
  aggregate when both arrive, the albums decode and both bodies close, whether or not the
  posts decode; in every other case the process ends.
\<close>

lemma fetchAggregatedResources_outcome:
  assumes "getAlbums be (''https://jsonplaceholder.typicode.com/users/'' @ i @ ''/albums'') = ra"
    and "getPosts be (''https://jsonplaceholder.typicode.com/users/'' @ i @ ''/posts'') = rp"
  shows "fst (fetchAggregatedResources be i) =
     (case (ra, rp) of
        (HttpResponse a False False, HttpResponse p decodeErr False) \<Rightarrow>
           Returns (encode (JObject [(''albums'', slice_json AlbumResponse_json a),
                                     (''posts'', slice_json PostResponse_json p)]))
      | _ \<Rightarrow> ProcessDies)"
  using assms
  by (auto simp: fetchAggregatedResources_def fetchAlbums_def fetchPosts_def json_Marshal_def
      AggregatedData_json_def split: fetched.split bool.split)

text \<open>
  C3: if either fetch fails, the aggregation reports failure and produces no payload.
  The code does otherwise where the posts reply does not decode: \<^verbatim>\<open>fetchPosts\<close> logs
  the error and returns what was decoded (here nothing), and the builder returns a
  replacement body that holds the albums alone, with \<open>"posts":null\<close>.
\<close>

theorem C3_posts_decode_error_partial_payload:
  \<open>aggregateServices
     \<lparr>getAlbums = (\<lambda>url. HttpResponse (Some [\<lparr>AlbumResponse.Id = 1, UserId = 42, Title = ''x''\<rparr>]) False False),
      getPosts = (\<lambda>url. HttpResponse None True False)\<rparr>
     \<lparr>Headers = Some [\<lparr>Key = ''userid'', RawValue = ''42''\<rparr>]\<rparr>
   = (Returns
        (\<lparr>Response = Some \<lparr>Status = CommonResponse_CONTINUE_AND_REPLACE,
           BodyMutation = Some (BodyMutation_Body
             ''{"albums":[{"id":1,"userId":42,"title":"x"}],"posts":null}'')\<rparr>\<rparr>,
         None),
      [HttpGet ''https://jsonplaceholder.typicode.com/users/42/albums'',
       HttpGet ''https://jsonplaceholder.typicode.com/users/42/posts''])\<close>
  by code_simp

text \<open>
  C4: a transport or decode failure of a fetch never ends the process, and is reported
  to the caller as an error of the request. The code does otherwise: a transport error
  of either fetch and a decode error of the albums fetch are logged with
  \<^verbatim>\<open>Log.Fatal\<close>, which ends the process; the handler neither sends a decision nor
  returns.
\<close>

theorem C4_fetch_failure_ends_process:
  "fst (fetchAggregatedResources
          \<lparr>getAlbums = (\<lambda>url. TransportError),
           getPosts = (\<lambda>url. HttpResponse (Some []) False False)\<rparr> ''42'') = ProcessDies
   \<and> fst (fetchAggregatedResources
          \<lparr>getAlbums = (\<lambda>url. HttpResponse None True False),
           getPosts = (\<lambda>url. HttpResponse (Some []) False False)\<rparr> ''42'') = ProcessDies
   \<and> fst (fetchAggregatedResources
          \<lparr>getAlbums = (\<lambda>url. HttpResponse (Some []) False False),
           getPosts = (\<lambda>url. TransportError)\<rparr> ''42'') = ProcessDies
   \<and> Process
       [\<lparr>ctxDone = False,
         recv = Recv_request (ProcessingRequest_RequestHeaders
                  \<lparr>Headers = Some [\<lparr>Key = ''userid'', RawValue = ''42''\<rparr>]\<rparr>),
         http = \<lparr>getAlbums = (\<lambda>url. TransportError),
                  getPosts = (\<lambda>url. HttpResponse (Some []) False False)\<rparr>,
         sendFails = False\<rparr>]
     = (Died,
        [Received (ProcessingRequest_RequestHeaders
                  \<lparr>Headers = Some [\<lparr>Key = ''userid'', RawValue = ''42''\<rparr>]\<rparr>),
         HttpGet ''https://jsonplaceholder.typicode.com/users/42/albums'',
         HttpGet ''https://jsonplaceholder.typicode.com/users/42/posts''])"
  by code_simp

section \<open>The stream handler\<close>

lemma requests_append: "requests (xs @ ys) = requests xs @ requests ys"
  by (induction xs rule: requests.induct) simp_all

lemma decisions_append: "decisions (xs @ ys) = decisions xs @ decisions ys"
  by (induction xs rule: decisions.induct) simp_all

lemma off_stream:
  "list_all (\<lambda>e. \<not> onStream e) ios \<Longrightarrow>
   requests ios = [] \<and> decisions ios = [] \<and> filter onStream ios = []"
  by (induction ios rule: requests.induct) simp_all

lemma fetchAggregatedResources_io:
  "list_all (\<lambda>e. \<not> onStream e) (snd (fetchAggregatedResources be i))"
  by (simp add: fetchAggregatedResources_def fetchAlbums_def fetchPosts_def Let_def
      split: prod.split)

lemma aggregateServices_io:
  "list_all (\<lambda>e. \<not> onStream e) (snd (aggregateServices be h))"
proof (cases "fetchAggregatedResources be (firstUserId (the (Headers h)))")
  case (Pair r ios)
  with fetchAggregatedResources_io [of be "firstUserId (the (Headers h))"]
  show ?thesis
    by (auto simp: aggregateServices_def getUserIdFromHeaders_def
        split: option.split exec.split)
qed

lemma buildResponse_io:
  "list_all (\<lambda>e. \<not> onStream e) (snd (buildResponse be req))"
proof (cases req)
  case (ProcessingRequest_RequestHeaders h)
  with aggregateServices_io [of be h] show ?thesis
    by (auto split: prod.split exec.split option.split)
qed simp_all

lemma buildResponse_off_stream:
  assumes "buildResponse be req = (r, ios)"
  shows "requests ios = []" and "decisions ios = []" and "filter onStream ios = []"
  using off_stream [OF buildResponse_io [of be req]] assms by simp_all

text \<open>
  A run that is in the loop still after a turn has passed the \<^verbatim>\<open>select\<close>, read a
  request, built a response for it and sent it.
\<close>

lemma Process_Cons_Waiting:
  assumes "Process (t # ts) = (Waiting, ios)"
  obtains req resp hs rest where "\<not> ctxDone t" and "recv t = Recv_request req"
    and "buildResponse (http t) req = (Returns (Inr resp), hs)" and "\<not> sendFails t"
    and "Process ts = (Waiting, rest)" and "ios = Received req # hs @ [Sent resp] @ rest"
  using assms
  by (auto split: if_splits received.splits prod.splits exec.splits sum.splits)


text \<open>
  C1: when the handler has gone through N turns and is in the loop still, it has read N
  requests (the ones \<^verbatim>\<open>Recv\<close> returned, in that order) and sent N decisions; on the
  stream the two alternate, every decision right after the request it answers; and the
  decision is the response built for that request.
\<close>

theorem C1_one_decision_per_event:
  "Process ts = (Waiting, ios) \<Longrightarrow>
   map Recv_request (requests ios) = map recv ts
   \<and> length (decisions ios) = length ts
   \<and> filter onStream ios
       = concat (map2 (\<lambda>req resp. [Received req, Sent resp]) (requests ios) (decisions ios))
   \<and> map2 (\<lambda>t req. fst (buildResponse (http t) req)) ts (requests ios)
       = map (\<lambda>resp. Returns (Inr resp)) (decisions ios)"
proof (induction ts arbitrary: ios)
  case Nil
  then show ?case by simp
next
  case (Cons t ts)
  from Cons.prems obtain req resp hs rest where t: "recv t = Recv_request req"
    and b: "buildResponse (http t) req = (Returns (Inr resp), hs)"
    and r: "Process ts = (Waiting, rest)" and ios: "ios = Received req # hs @ [Sent resp] @ rest"
    by (rule Process_Cons_Waiting)
  note h = buildResponse_off_stream [OF b]
  from ios h have rq: "requests ios = req # requests rest"
    and ds: "decisions ios = resp # decisions rest"
    and os: "filter onStream ios = Received req # Sent resp # filter onStream rest"
    by (simp_all add: requests_append decisions_append)
  from Cons.IH [OF r] t b show ?case
    by (simp add: rq ds os)
qed

theorem C1_one_decision_per_event_witness:
  "Process twoTurns = (Waiting, snd (Process twoTurns))
   \<and> map Recv_request (requests (snd (Process twoTurns))) = map recv twoTurns
   \<and> length (decisions (snd (Process twoTurns))) = length twoTurns
   \<and> requests (snd (Process twoTurns))
       = [ProcessingRequest_RequestHeaders scenarioA_headers, ProcessingRequest_RequestBody]
   \<and> decisions (snd (Process twoTurns))
       = [ProcessingResponse_RequestHeaders scenarioA_decision, ProcessingResponse_unset]"
proof -
  have w: "Process twoTurns = (Waiting, snd (Process twoTurns))"
    by code_simp
  have "requests (snd (Process twoTurns))
       = [ProcessingRequest_RequestHeaders scenarioA_headers, ProcessingRequest_RequestBody]"
    and "decisions (snd (Process twoTurns))
       = [ProcessingResponse_RequestHeaders scenarioA_decision, ProcessingResponse_unset]"
    by code_simp+
  with C1_one_decision_per_event [OF w] w show ?thesis
    by blast
qed

text \<open>
  C7: for a request-body, request-trailers, response-headers, response-body or
  response-trailers event, and for a request with no variant set, the handler builds the
  empty decision (no fetch, no error) and hands exactly that to \<^verbatim>\<open>Send\<close>; when
  \<^verbatim>\<open>Send\<close> succeeds the loop goes on with the next turn, and the handler returns
  only if \<^verbatim>\<open>Send\<close> itself fails.
\<close>

theorem C7_other_events_empty_decision:
  assumes "\<not> ctxDone t" and "recv t = Recv_request req"
    and "req \<in> {ProcessingRequest_RequestBody, ProcessingRequest_RequestTrailers,
                ProcessingRequest_ResponseHeaders, ProcessingRequest_ResponseBody,
                ProcessingRequest_ResponseTrailers, ProcessingRequest_unset}"
  shows "buildResponse (http t) req = (Returns (Inr ProcessingResponse_unset), [])
    \<and> Process (t # ts) =
       (if sendFails t
          then (Returned (Some send_err), [Received req, SendFailed ProcessingResponse_unset])
          else (fst (Process ts), Received req # Sent ProcessingResponse_unset # snd (Process ts)))"
proof -
  from assms(3) have b: "buildResponse (http t) req = (Returns (Inr ProcessingResponse_unset), [])"
    by auto
  with assms(1,2) show ?thesis
    by (simp add: split_def Let_def)
qed

theorem C7_other_events_empty_decision_witness:
  "\<not> ctxDone (twoTurns ! 1)
   \<and> recv (twoTurns ! 1) = Recv_request ProcessingRequest_RequestBody
   \<and> ProcessingRequest_RequestBody
       \<in> {ProcessingRequest_RequestBody, ProcessingRequest_RequestTrailers,
          ProcessingRequest_ResponseHeaders, ProcessingRequest_ResponseBody,
          ProcessingRequest_ResponseTrailers, ProcessingRequest_unset}
   \<and> \<not> sendFails (twoTurns ! 1)
   \<and> Process (twoTurns ! 1 # twoTurns) =
       (fst (Process twoTurns),
        Received ProcessingRequest_RequestBody # Sent ProcessingResponse_unset
          # snd (Process twoTurns))
   \<and> fst (Process twoTurns) = Waiting"
proof -
  have c: "\<not> ctxDone (twoTurns ! 1)"
    and r: "recv (twoTurns ! 1) = Recv_request ProcessingRequest_RequestBody"
    and s: "\<not> sendFails (twoTurns ! 1)"
    and w: "fst (Process twoTurns) = Waiting"
    by code_simp+
  have m: "ProcessingRequest_RequestBody
       \<in> {ProcessingRequest_RequestBody, ProcessingRequest_RequestTrailers,
          ProcessingRequest_ResponseHeaders, ProcessingRequest_ResponseBody,
          ProcessingRequest_ResponseTrailers, ProcessingRequest_unset}"
    by simp
  from C7_other_events_empty_decision [OF c r m, of twoTurns, THEN conjunct2] s
  have "Process (twoTurns ! 1 # twoTurns) =
       (fst (Process twoTurns),
        Received ProcessingRequest_RequestBody # Sent ProcessingResponse_unset
          # snd (Process twoTurns))"
    by (simp only: if_False)
  with c r m s w show ?thesis
    by blast
qed





text \<open>
  C8, as written: once the context is cancelled, no decision is ever sent after the point
  of cancellation. The handler reads the context in one place only, the \<^verbatim>\<open>select\<close>
  at the head of the loop. When the context is cancelled in the first turn after
  \<^verbatim>\<open>Recv\<close> has returned, while the aggregate is fetched, the handler goes on to
  \<^verbatim>\<open>Send\<close> and the decision of that turn is sent; the \<^verbatim>\<open>select\<close> of the next
  turn then ends the loop.
\<close>

theorem C8_cancelled_during_turn_counterexample:
  "Process (withCancellation (AfterRecv 0) twoTurns)
     = (Returned (Some ctx_Err),
        [Received (ProcessingRequest_RequestHeaders scenarioA_headers)] @ scenarioA_fetches
          @ [Sent (ProcessingResponse_RequestHeaders scenarioA_decision)])
   \<and> decisionsAfterCancellation (AfterRecv 0) twoTurns
     = [ProcessingResponse_RequestHeaders scenarioA_decision]"
  by code_simp



end
